theory Spec2Isabelle
  imports Main "HOL-Library.Sublist"
begin

section \<open>Text, console and exceptions\<close>

text \<open>
  The two programs are Python. A Python \<open>str\<close> is modelled as a \<open>string\<close> holding its
  UTF-8 encoding, which is also what \<open>open(..., encoding="utf-8")\<close> puts into a file. The
  pictographs of the source are the byte sequences below; everything else is ASCII.
\<close>

definition nl :: string where
  "nl = [CHR 0x0A]"

definition sq :: string where
  "sq = [CHR 0x27]"

definition construction :: string where \<comment> \<open>U+1F3D7 U+FE0F\<close>
  "construction = [CHR 0xF0, CHR 0x9F, CHR 0x8F, CHR 0x97, CHR 0xEF, CHR 0xB8, CHR 0x8F]"

definition warning_sign :: string where \<comment> \<open>U+26A0 U+FE0F\<close>
  "warning_sign = [CHR 0xE2, CHR 0x9A, CHR 0xA0, CHR 0xEF, CHR 0xB8, CHR 0x8F]"

definition check_mark :: string where \<comment> \<open>U+2705\<close>
  "check_mark = [CHR 0xE2, CHR 0x9C, CHR 0x85]"

definition cross_mark :: string where \<comment> \<open>U+274C\<close>
  "cross_mark = [CHR 0xE2, CHR 0x9D, CHR 0x8C]"

definition key_sign :: string where \<comment> \<open>U+1F511\<close>
  "key_sign = [CHR 0xF0, CHR 0x9F, CHR 0x94, CHR 0x91]"

definition memo_sign :: string where \<comment> \<open>U+1F4DD\<close>
  "memo_sign = [CHR 0xF0, CHR 0x9F, CHR 0x93, CHR 0x9D]"

definition bulb_sign :: string where \<comment> \<open>U+1F4A1\<close>
  "bulb_sign = [CHR 0xF0, CHR 0x9F, CHR 0x92, CHR 0xA1]"

definition clipboard :: string where \<comment> \<open>U+1F4CB\<close>
  "clipboard = [CHR 0xF0, CHR 0x9F, CHR 0x93, CHR 0x8B]"

definition rocket :: string where \<comment> \<open>U+1F680\<close>
  "rocket = [CHR 0xF0, CHR 0x9F, CHR 0x9A, CHR 0x80]"

definition party :: string where \<comment> \<open>U+1F389\<close>
  "party = [CHR 0xF0, CHR 0x9F, CHR 0x8E, CHR 0x89]"

definition test_tube :: string where \<comment> \<open>U+1F9EA\<close>
  "test_tube = [CHR 0xF0, CHR 0x9F, CHR 0xA7, CHR 0xAA]"

definition wrench :: string where \<comment> \<open>U+1F527\<close>
  "wrench = [CHR 0xF0, CHR 0x9F, CHR 0x94, CHR 0xA7]"

definition phone_sign :: string where \<comment> \<open>U+1F4F1\<close>
  "phone_sign = [CHR 0xF0, CHR 0x9F, CHR 0x93, CHR 0xB1]"

definition siren :: string where \<comment> \<open>U+1F6A8\<close>
  "siren = [CHR 0xF0, CHR 0x9F, CHR 0x9A, CHR 0xA8]"

definition laptop :: string where \<comment> \<open>U+1F4BB\<close>
  "laptop = [CHR 0xF0, CHR 0x9F, CHR 0x92, CHR 0xBB]"

text \<open>
  \<open>print\<close> appends one entry to the console; a function of the model returns the list
  of the entries it printed, in order. \<open>sep.join(xs)\<close> is \<open>str_join\<close>.
\<close>

fun str_join :: "string \<Rightarrow> string list \<Rightarrow> string" where
  "str_join sep [] = []"
| "str_join sep [x] = x"
| "str_join sep (x # y # ys) = x @ sep @ str_join sep (y # ys)"

text \<open>
  Exceptions are values. \<open>Exception\<close> stands for any instance of Python's \<open>Exception\<close>
  raised by a collaborator, carrying its \<open>str\<close>; the two \<open>OSError\<close>s are the ones
  \<open>open(path, "w")\<close> raises in the file system below. A call either returns a value or
  raises.
\<close>

datatype exn = IsADirectoryError string | PermissionError string | Exception string

fun str_exn :: "exn \<Rightarrow> string" where
  "str_exn (IsADirectoryError p) = ''[Errno 21] Is a directory: '' @ sq @ p @ sq"
| "str_exn (PermissionError p) = ''[Errno 13] Permission denied: '' @ sq @ p @ sq"
| "str_exn (Exception m) = m"

datatype 'a outcome = Returns 'a | Raises exn

section \<open>The file system seen by the preparation script\<close>

text \<open>
  The script works on relative paths in its working directory. A path names a regular file
  with its content, a directory, or nothing; \<open>read_only\<close> holds the paths that cannot be
  opened for writing.
\<close>

datatype node = File string | Dir

record filesystem =
  nodes :: "string \<rightharpoonup> node"
  read_only :: "string set"

definition os_path_exists :: "filesystem \<Rightarrow> string \<Rightarrow> bool" where
  "os_path_exists fs p = (nodes fs p \<noteq> None)"

definition os_path_isdir :: "filesystem \<Rightarrow> string \<Rightarrow> bool" where
  "os_path_isdir fs p = (nodes fs p = Some Dir)"

text \<open>\<open>open(p, "w")\<close> truncates or creates the file, or raises.\<close>

definition open_w :: "filesystem \<Rightarrow> string \<Rightarrow> filesystem outcome" where
  "open_w fs p =
     (if nodes fs p = Some Dir then Raises (IsADirectoryError p)
      else if p \<in> read_only fs then Raises (PermissionError p)
      else Returns (fs\<lparr>nodes := (nodes fs)(p \<mapsto> File [])\<rparr>))"

text \<open>\<open>f.write(s)\<close> on the file opened at \<open>p\<close> appends to what was written so far.\<close>

definition f_write :: "filesystem \<Rightarrow> string \<Rightarrow> string \<Rightarrow> filesystem" where
  "f_write fs p s =
     (case nodes fs p of
        Some (File c) \<Rightarrow> fs\<lparr>nodes := (nodes fs)(p \<mapsto> File (c @ s))\<rparr>
      | _ \<Rightarrow> fs)"

definition read_file :: "filesystem \<Rightarrow> string \<Rightarrow> string option" where
  "read_file fs p = (case nodes fs p of Some (File c) \<Rightarrow> Some c | _ \<Rightarrow> None)"

text \<open>The lines of a text: every line ends at a line feed; a last line may lack it.\<close>

fun lines_from :: "string \<Rightarrow> string \<Rightarrow> string list" where
  "lines_from cur [] = (if cur = [] then [] else [cur])"
| "lines_from cur (c # cs) =
     (if c = CHR 0x0A then cur # lines_from [] cs else lines_from (cur @ [c]) cs)"

definition file_lines :: "filesystem \<Rightarrow> string \<Rightarrow> string list option" where
  "file_lines fs p = map_option (lines_from []) (read_file fs p)"

section \<open>deploy\_vercel.py\<close>

subsection \<open>check\_vercel\_files\<close>

definition required_files :: "string list" where
  "required_files = [''vercel.json'', ''vercel_main.py'', ''requirements-vercel.txt'']"

text \<open>The \<open>for file in required_files\<close> loop, with \<open>missing_files\<close> and the console.\<close>

fun check_vercel_files_loop ::
  "filesystem \<Rightarrow> string list \<Rightarrow> string list \<Rightarrow> string list \<Rightarrow> string list \<times> string list" where
  "check_vercel_files_loop fs [] missing_files out = (missing_files, out)"
| "check_vercel_files_loop fs (file # rest) missing_files out =
     (if \<not> os_path_exists fs file
      then check_vercel_files_loop fs rest (missing_files @ [file]) out
      else check_vercel_files_loop fs rest missing_files (out @ [check_mark @ '' '' @ file]))"

definition check_vercel_files :: "filesystem \<Rightarrow> string list \<times> bool" where
  "check_vercel_files fs =
     (case check_vercel_files_loop fs required_files [] [''Checking Vercel deployment files...''] of
        (missing_files, out) \<Rightarrow>
          if missing_files \<noteq> []
          then (out @ [cross_mark @ '' Missing files: '' @ str_join '', '' missing_files], False)
          else (out @ [check_mark @ '' All Vercel files are present!''], True))"

subsection \<open>check\_project\_structure\<close>

definition required_dirs :: "string list" where
  "required_dirs = [''app'', ''static'', ''templates'']"

text \<open>
  The \<open>for dir_name in required_dirs\<close> loop. \<open>Some False\<close> is the \<open>return False\<close> inside
  the loop; \<open>None\<close> is the loop running to its end.
\<close>

fun check_project_structure_loop ::
  "filesystem \<Rightarrow> string list \<Rightarrow> string list \<Rightarrow> string list \<times> bool option" where
  "check_project_structure_loop fs [] out = (out, None)"
| "check_project_structure_loop fs (dir_name # rest) out =
     (if os_path_exists fs dir_name \<and> os_path_isdir fs dir_name
      then check_project_structure_loop fs rest (out @ [check_mark @ '' '' @ dir_name @ ''/ directory''])
      else (out @ [cross_mark @ '' '' @ dir_name @ ''/ directory missing''], Some False))"

definition check_project_structure :: "filesystem \<Rightarrow> string list \<times> bool" where
  "check_project_structure fs =
     (case check_project_structure_loop fs required_dirs
             [nl @ construction @ ''  Checking project structure...''] of
        (out, Some r) \<Rightarrow> (out, r)
      | (out, None) \<Rightarrow> (out @ [check_mark @ '' Project structure is correct!''], True))"

subsection \<open>generate\_secret\_key\<close>

text \<open>
  \<open>secrets.token_urlsafe(32)\<close> is the standard library's: its outcome \<open>tok\<close> is an input of
  the model (the import and the call may raise). The body of the \<open>try\<close> returns the console,
  the file system and its outcome; the \<open>except Exception\<close> handler turns a raise into a
  logged \<open>None\<close>.
\<close>

definition generate_secret_key_try ::
  "filesystem \<Rightarrow> string outcome \<Rightarrow> string list \<times> filesystem \<times> string outcome" where
  "generate_secret_key_try fs tok =
     (case tok of
        Raises e \<Rightarrow> ([], fs, Raises e)
      | Returns secret_key \<Rightarrow>
          (let out = [check_mark @ '' Generated SECRET_KEY: '' @ secret_key] in
           case open_w fs ''vercel_secret_key.txt'' of
             Raises e \<Rightarrow> (out, fs, Raises e)
           | Returns f0 \<Rightarrow>
               (let f1 = f_write f0 ''vercel_secret_key.txt'' (''SECRET_KEY='' @ secret_key @ nl);
                    f2 = f_write f1 ''vercel_secret_key.txt'' (''ENVIRONMENT=production'' @ nl);
                    f3 = f_write f2 ''vercel_secret_key.txt'' (''DEBUG=false'' @ nl)
                in (out @ [memo_sign @ '' Secret key saved to '' @ sq @ ''vercel_secret_key.txt'' @ sq,
                           bulb_sign @ '' Copy these environment variables to Vercel dashboard''],
                    f3, Returns secret_key))))"

definition generate_secret_key ::
  "filesystem \<Rightarrow> string outcome \<Rightarrow> string list \<times> filesystem \<times> string option outcome" where
  "generate_secret_key fs tok =
     (case generate_secret_key_try fs tok of
        (out, fs', Returns secret_key) \<Rightarrow>
          ((nl @ key_sign @ '' Generating secure secret key...'') # out, fs', Returns (Some secret_key))
      | (out, fs', Raises e) \<Rightarrow>
          ((nl @ key_sign @ '' Generating secure secret key...'') # out
             @ [cross_mark @ '' Error generating secret key: '' @ str_exn e],
           fs', Returns None))"

subsection \<open>create\_deployment\_checklist\<close>

text \<open>The triple-quoted literal, line by line; each line ends with a line feed.\<close>

definition checklist_lines :: "string list" where
  \<open>checklist_lines =
    [''# Vercel Deployment Checklist'',
     [],
     ''## '' @ check_mark @ '' Pre-Deployment'',
     ''- [ ] All Vercel files are present (vercel.json, vercel_main.py, requirements-vercel.txt)'',
     ''- [ ] Project structure is correct (app/, static/, templates/)'',
     ''- [ ] Code is pushed to GitHub'',
     ''- [ ] Secret key is generated'',
     [],
     ''## '' @ construction @ '' Deployment Steps'',
     ''1. [ ] Go to [vercel.com](https://vercel.com) and sign up/login'',
     ''2. [ ] Click "New Project"'',
     ''3. [ ] Import your GitHub repository'',
     ''4. [ ] Configure project settings'',
     ''5. [ ] Click "Deploy"'',
     ''6. [ ] Add environment variables:'',
     ''   - ENVIRONMENT=production'',
     ''   - DEBUG=false'',
     ''   - SECRET_KEY=[your-generated-key]'',
     ''7. [ ] Redeploy with environment variables'',
     [],
     ''## '' @ test_tube @ '' Post-Deployment Testing'',
     ''- [ ] App is accessible at Vercel URL'',
     ''- [ ] Health endpoint (/health) works'',
     ''- [ ] Home page loads correctly'',
     ''- [ ] All navigation works'',
     ''- [ ] User registration works'',
     ''- [ ] Admin login works'',
     [],
     ''## '' @ wrench @ '' Environment Variables for Vercel'',
     ''```'',
     ''ENVIRONMENT=production'',
     ''DEBUG=false'',
     ''SECRET_KEY=[your-secret-key-here]'',
     ''```'',
     [],
     ''## '' @ phone_sign @ '' Your Vercel URL'',
     ''After deployment, your app will be available at:'',
     ''`https://your-project-name.vercel.app`'',
     [],
     ''## '' @ siren @ '' Important Notes'',
     ''- Vercel uses serverless functions (no persistent storage)'',
     ''- Database resets on each deployment'',
     ''- Cold starts may cause initial delays'',
     ''- Perfect for demos and testing'',
     ''- Consider external database for production data'',
     [],
     ''---'',
     ''**Happy deploying on Vercel! '' @ rocket @ ''**'']\<close>

definition checklist_content :: string where
  "checklist_content = concat (map (\<lambda>l. l @ nl) checklist_lines)"

definition create_deployment_checklist :: "filesystem \<Rightarrow> string list \<times> filesystem outcome" where
  "create_deployment_checklist fs =
     (let out = [nl @ clipboard @ '' Creating deployment checklist...''] in
      case open_w fs ''VERCEL-CHECKLIST.md'' of
        Raises e \<Rightarrow> (out, Raises e)
      | Returns f0 \<Rightarrow>
          (out @ [check_mark @ '' Deployment checklist created: '' @ sq @ ''VERCEL-CHECKLIST.md'' @ sq],
           Returns (f_write f0 ''VERCEL-CHECKLIST.md'' checklist_content)))"

subsection \<open>main and the exit code\<close>

text \<open>\<open>not secret_key\<close>: \<open>None\<close> and the empty string are falsy.\<close>

fun truthy :: "string option \<Rightarrow> bool" where
  "truthy None = False"
| "truthy (Some s) = (s \<noteq> [])"

definition main :: "filesystem \<Rightarrow> string outcome \<Rightarrow> string list \<times> filesystem \<times> bool outcome" where
  "main fs tok =
     (let out = [rocket @ '' Vercel Deployment Preparation for Jubair Boot House'',
                 replicate 60 (CHR ''='')];
          (o1, files_ok) = check_vercel_files fs
      in
      if \<not> files_ok
      then (out @ o1 @ [nl @ cross_mark @ '' Please create missing Vercel files before deployment''],
            fs, Returns False)
      else
     (let (o2, structure_ok) = check_project_structure fs
      in
      if \<not> structure_ok
      then (out @ o1 @ o2 @ [nl @ cross_mark @ '' Please fix project structure before deployment''],
            fs, Returns False)
      else
     (case generate_secret_key fs tok of
        (o3, f3, Raises e) \<Rightarrow> (out @ o1 @ o2 @ o3, f3, Raises e)
      | (o3, f3, Returns secret_key) \<Rightarrow>
         (if \<not> truthy secret_key
          then (out @ o1 @ o2 @ o3 @ [nl @ cross_mark @ '' Failed to generate secret key''],
                f3, Returns False)
          else
         (case create_deployment_checklist f3 of
            (o4, Raises e) \<Rightarrow> (out @ o1 @ o2 @ o3 @ o4, f3, Raises e)
          | (o4, Returns f4) \<Rightarrow>
              (out @ o1 @ o2 @ o3 @ o4 @
                 [nl @ replicate 60 (CHR ''=''),
                  party @ '' Vercel deployment preparation completed!'',
                  nl @ memo_sign @ '' Next steps:'',
                  ''1. Push your code to GitHub'',
                  ''2. Go to vercel.com and create account'',
                  ''3. Import your repository'',
                  ''4. Deploy with the generated environment variables'',
                  nl @ clipboard @ '' Check '' @ sq @ ''VERCEL-CHECKLIST.md'' @ sq @ '' for detailed steps'',
                  key_sign @ '' Check '' @ sq @ ''vercel_secret_key.txt'' @ sq @ '' for environment variables''],
               f4, Returns True))))))"

text \<open>
  \<open>success = main(); sys.exit(0 if success else 1)\<close>. An exception that leaves \<open>main\<close> is
  caught nowhere: the interpreter prints the traceback and the process ends with status 1.
\<close>

definition script_exit_code :: "filesystem \<Rightarrow> string outcome \<Rightarrow> nat" where
  "script_exit_code fs tok =
     (case snd (snd (main fs tok)) of
        Returns success \<Rightarrow> (if success then 0 else 1)
      | Raises e \<Rightarrow> 1)"

section \<open>vercel\_main.py\<close>

subsection \<open>startup\_event\<close>

text \<open>
  \<open>test_connection\<close> and \<open>init_db\<close> come from \<open>app.database\<close>; the outcome of each call
  is an input of the model. \<open>init_db\<close> is called only after a truthy \<open>test_connection\<close>.
  The hook has no \<open>try\<close>.
\<close>

definition startup_event :: "bool outcome \<Rightarrow> bool outcome \<Rightarrow> string list \<times> unit outcome" where
  "startup_event test_connection init_db =
     (let out = [rocket @ '' Starting Jubair Boot House on Vercel...'',
                 laptop @ '' Vercel mode: Using SQLite database''] in
      case test_connection of
        Raises e \<Rightarrow> (out, Raises e)
      | Returns connected \<Rightarrow>
          if connected then
            (case init_db of
               Raises e \<Rightarrow> (out @ [check_mark @ '' SQLite connection established''], Raises e)
             | Returns created \<Rightarrow>
                 if created
                 then (out @ [check_mark @ '' SQLite connection established'',
                              check_mark @ '' SQLite tables verified/created''], Returns ())
                 else (out @ [check_mark @ '' SQLite connection established'',
                              warning_sign @ ''  SQLite table initialization had issues''], Returns ()))
          else (out @ [cross_mark @ '' SQLite connection failed - app will continue with limited functionality''],
                Returns ()))"

subsection \<open>health\_check\<close>

datatype json = JString string | JObject "(string \<times> json) list"

fun field :: "json \<Rightarrow> string \<Rightarrow> json option" where
  "field (JObject kvs) k = map_of kvs k"
| "field (JString s) k = None"

text \<open>The whole body is inside \<open>try\<close>; \<open>except Exception as e\<close> returns the error payload.\<close>

definition health_check :: "bool outcome \<Rightarrow> json outcome" where
  "health_check test_connection =
     (case test_connection of
        Returns connected \<Rightarrow>
          (let db_status = (if connected then ''connected'' else ''disconnected'') in
           Returns (JObject
             [(''status'', JString (if db_status = ''connected'' then ''healthy'' else ''warning'')),
              (''database'', JObject [(''type'', JString ''SQLite''), (''status'', JString db_status)]),
              (''environment'', JString ''vercel''),
              (''platform'', JString ''serverless''),
              (''app'', JString ''Jubair Boot House''),
              (''version'', JString ''1.0.0'')]))
      | Raises e \<Rightarrow>
          Returns (JObject
            [(''status'', JString ''error''),
             (''message'', JString (str_exn e)),
             (''environment'', JString ''vercel'')]))"

subsection \<open>Page routes\<close>

text \<open>
  A handler returns a redirect (Starlette's \<open>RedirectResponse\<close>, whose status code
  defaults to 307 and whose target is the \<open>location\<close> header) or a rendered template
  bound to the request.
\<close>

datatype 'r response =
    Redirect (status_code: nat) (location: string)
  | TemplateResponse string 'r

definition RedirectResponse :: "string \<Rightarrow> 'r response" where
  "RedirectResponse url = Redirect 307 url"

definition home_page :: "'r \<Rightarrow> 'r response" where
  "home_page request = TemplateResponse ''home.html'' request"

definition catalog_redirect :: "'r \<Rightarrow> 'r response" where
  "catalog_redirect request = RedirectResponse ''/products/''"

definition admin_dashboard_redirect :: "'r \<Rightarrow> 'r response" where
  "admin_dashboard_redirect request = RedirectResponse ''/products/admin/dashboard''"

definition admin_users_redirect :: "'r \<Rightarrow> 'r response" where
  "admin_users_redirect request = RedirectResponse ''/auth/admin/users''"

definition size_guide_page :: "'r \<Rightarrow> 'r response" where
  "size_guide_page request = TemplateResponse ''size_guide.html'' request"

definition contact_page :: "'r \<Rightarrow> 'r response" where
  "contact_page request = TemplateResponse ''contact.html'' request"

definition about_page :: "'r \<Rightarrow> 'r response" where
  "about_page request = TemplateResponse ''about.html'' request"

definition faq_page :: "'r \<Rightarrow> 'r response" where
  "faq_page request = TemplateResponse ''faq.html'' request"

definition terms_page :: "'r \<Rightarrow> 'r response" where
  "terms_page request = TemplateResponse ''terms.html'' request"

definition privacy_page :: "'r \<Rightarrow> 'r response" where
  "privacy_page request = TemplateResponse ''privacy.html'' request"

definition cookies_page :: "'r \<Rightarrow> 'r response" where
  "cookies_page request = TemplateResponse ''cookies.html'' request"

definition returns_page :: "'r \<Rightarrow> 'r response" where
  "returns_page request = TemplateResponse ''returns.html'' request"

definition shipping_page :: "'r \<Rightarrow> 'r response" where
  "shipping_page request = TemplateResponse ''shipping.html'' request"

text \<open>The \<open>@app.get(path)\<close> decorators of the page handlers, in the order of the file.\<close>

definition get_routes :: "(string \<times> ('r \<Rightarrow> 'r response)) list" where
  "get_routes =
     [(''/'', home_page),
      (''/catalog'', catalog_redirect),
      (''/admin/dashboard'', admin_dashboard_redirect),
      (''/admin/users'', admin_users_redirect),
      (''/size-guide'', size_guide_page),
      (''/contact'', contact_page),
      (''/about'', about_page),
      (''/faq'', faq_page),
      (''/terms'', terms_page),
      (''/privacy'', privacy_page),
      (''/cookies'', cookies_page),
      (''/returns'', returns_page),
      (''/shipping'', shipping_page)]"

definition dispatch_get :: "string \<Rightarrow> 'r \<Rightarrow> 'r response option" where
  "dispatch_get path request = map_option (\<lambda>handler. handler request) (map_of get_routes path)"

section \<open>Sample inputs\<close>

text \<open>A working directory that has every required file and directory, and nothing else.\<close>

definition ready_fs :: filesystem where
  "ready_fs = \<lparr>nodes = [''vercel.json'' \<mapsto> File ''{}'',
                        ''vercel_main.py'' \<mapsto> File ''app = FastAPI()'',
                        ''requirements-vercel.txt'' \<mapsto> File ''fastapi'',
                        ''app'' \<mapsto> Dir, ''static'' \<mapsto> Dir, ''templates'' \<mapsto> Dir],
               read_only = {}\<rparr>"

definition empty_fs :: filesystem where
  "empty_fs = \<lparr>nodes = Map.empty, read_only = {}\<rparr>"

text \<open>A token of the shape \<open>token_urlsafe(32)\<close> returns: 43 URL-safe characters.\<close>

definition sample_token :: string where
  "sample_token = ''Zq3vX8mK1tYb0_Rw5NcE-hU7sJ2aLdG9pF4oTiV6yQk''"

text \<open>The same directory with \<open>vercel.json\<close> and \<open>static\<close> absent.\<close>

definition partial_fs :: filesystem where
  "partial_fs = ready_fs\<lparr>nodes := (nodes ready_fs)(''vercel.json'' := None, ''static'' := None)\<rparr>"

text \<open>The same directory where \<open>app\<close> is a regular file.\<close>

definition file_named_app_fs :: filesystem where
  "file_named_app_fs = ready_fs\<lparr>nodes := (nodes ready_fs)(''app'' \<mapsto> File ''not a directory'')\<rparr>"

text \<open>The same directory where one of the two output paths is already a directory.\<close>

definition secret_dir_fs :: filesystem where
  "secret_dir_fs = ready_fs\<lparr>nodes := (nodes ready_fs)(''vercel_secret_key.txt'' \<mapsto> Dir)\<rparr>"

definition checklist_dir_fs :: filesystem where
  "checklist_dir_fs = ready_fs\<lparr>nodes := (nodes ready_fs)(''VERCEL-CHECKLIST.md'' \<mapsto> Dir)\<rparr>"

text \<open>The same directory with a checklist left by an earlier run.\<close>

definition stale_checklist_fs :: filesystem where
  "stale_checklist_fs =
     ready_fs\<lparr>nodes := (nodes ready_fs)(''VERCEL-CHECKLIST.md'' \<mapsto> File ''old notes'')\<rparr>"

section \<open>The checkers\<close>

lemmas pictographs = check_mark_def cross_mark_def construction_def nl_def

text \<open>Both loops in closed form.\<close>

lemma check_vercel_files_loop_eq:
  "check_vercel_files_loop fs fl missing out =
     (missing @ filter (\<lambda>f. \<not> os_path_exists fs f) fl,
      out @ map (\<lambda>f. check_mark @ '' '' @ f) (filter (os_path_exists fs) fl))"
  by (induction fl arbitrary: missing out) simp_all

lemma isdir_exists: "os_path_isdir fs p \<Longrightarrow> os_path_exists fs p"
  by (simp add: os_path_isdir_def os_path_exists_def)

lemma check_project_structure_loop_eq:
  "check_project_structure_loop fs ds out =
     (out @ map (\<lambda>d. check_mark @ '' '' @ d @ ''/ directory'') (takeWhile (os_path_isdir fs) ds)
          @ (case dropWhile (os_path_isdir fs) ds of
               [] \<Rightarrow> []
             | d # rest \<Rightarrow> [cross_mark @ '' '' @ d @ ''/ directory missing'']),
      if list_all (os_path_isdir fs) ds then None else Some False)"
  by (induction ds arbitrary: out) (auto dest: isdir_exists)

lemma check_vercel_files_result:
  "snd (check_vercel_files fs) = list_all (os_path_exists fs) required_files"
  by (simp add: check_vercel_files_def check_vercel_files_loop_eq filter_empty_conv list_all_iff)

lemma check_project_structure_result:
  "snd (check_project_structure fs) = list_all (os_path_isdir fs) required_dirs"
  by (simp add: check_project_structure_def check_project_structure_loop_eq)

lemma check_vercel_files_console:
  "fst (check_vercel_files fs) =
     ''Checking Vercel deployment files...''
       # map (\<lambda>f. check_mark @ '' '' @ f) (filter (os_path_exists fs) required_files)
       @ [if filter (\<lambda>f. \<not> os_path_exists fs f) required_files = []
          then check_mark @ '' All Vercel files are present!''
          else cross_mark @ '' Missing files: ''
                 @ str_join '', '' (filter (\<lambda>f. \<not> os_path_exists fs f) required_files)]"
  by (simp add: check_vercel_files_def check_vercel_files_loop_eq)

lemma check_project_structure_console:
  "fst (check_project_structure fs) =
     (nl @ construction @ ''  Checking project structure...'')
       # map (\<lambda>d. check_mark @ '' '' @ d @ ''/ directory'') (takeWhile (os_path_isdir fs) required_dirs)
       @ (case dropWhile (os_path_isdir fs) required_dirs of
            [] \<Rightarrow> [check_mark @ '' Project structure is correct!'']
          | d # rest \<Rightarrow> [cross_mark @ '' '' @ d @ ''/ directory missing''])"
proof (cases "dropWhile (os_path_isdir fs) required_dirs")
  case Nil
  then have "list_all (os_path_isdir fs) required_dirs"
    by (simp add: list_all_iff)
  with Nil show ?thesis
    by (simp add: check_project_structure_def check_project_structure_loop_eq
             del: dropWhile_eq_Nil_conv)
next
  case (Cons d rest)
  then have "\<not> list_all (os_path_isdir fs) required_dirs"
    by (metis dropWhile_eq_Nil_conv list.distinct(1) list_all_iff)
  with Cons show ?thesis
    by (simp add: check_project_structure_def check_project_structure_loop_eq)
qed

text \<open>
  C2. The file checker returns true exactly when every required file exists, the structure
  checker exactly when every required directory exists (and is a directory); so with
  everything present both return true, and taking any one required item away makes the
  corresponding checker return false.
\<close>

theorem checkers_true_iff_all_present:
  "(snd (check_vercel_files fs) \<longleftrightarrow> (\<forall>f \<in> set required_files. os_path_exists fs f))
   \<and> (snd (check_project_structure fs) \<longleftrightarrow>
        (\<forall>d \<in> set required_dirs. os_path_exists fs d \<and> os_path_isdir fs d))
   \<and> (\<forall>f \<in> set required_files. \<not> snd (check_vercel_files (fs\<lparr>nodes := (nodes fs)(f := None)\<rparr>)))
   \<and> (\<forall>d \<in> set required_dirs. \<not> snd (check_project_structure (fs\<lparr>nodes := (nodes fs)(d := None)\<rparr>)))"
proof (intro conjI ballI)
  show "snd (check_vercel_files fs) \<longleftrightarrow> (\<forall>f \<in> set required_files. os_path_exists fs f)"
    by (simp add: check_vercel_files_result list_all_iff)
  show "snd (check_project_structure fs) \<longleftrightarrow>
        (\<forall>d \<in> set required_dirs. os_path_exists fs d \<and> os_path_isdir fs d)"
    by (auto simp: check_project_structure_result list_all_iff dest: isdir_exists)
next
  fix f assume "f \<in> set required_files"
  moreover have "\<not> os_path_exists (fs\<lparr>nodes := (nodes fs)(f := None)\<rparr>) f"
    by (simp add: os_path_exists_def)
  ultimately show "\<not> snd (check_vercel_files (fs\<lparr>nodes := (nodes fs)(f := None)\<rparr>))"
    unfolding check_vercel_files_result list_all_iff by blast
next
  fix d assume "d \<in> set required_dirs"
  moreover have "\<not> os_path_isdir (fs\<lparr>nodes := (nodes fs)(d := None)\<rparr>) d"
    by (simp add: os_path_isdir_def)
  ultimately show "\<not> snd (check_project_structure (fs\<lparr>nodes := (nodes fs)(d := None)\<rparr>))"
    unfolding check_project_structure_result list_all_iff by blast
qed

theorem checkers_true_iff_all_present_witness:
  "snd (check_vercel_files ready_fs) \<and> snd (check_project_structure ready_fs)
   \<and> \<not> snd (check_vercel_files (ready_fs\<lparr>nodes := (nodes ready_fs)(''vercel_main.py'' := None)\<rparr>))
   \<and> \<not> snd (check_project_structure (ready_fs\<lparr>nodes := (nodes ready_fs)(''static'' := None)\<rparr>))"
  using checkers_true_iff_all_present [of ready_fs]
  by (simp add: required_files_def required_dirs_def ready_fs_def os_path_exists_def os_path_isdir_def)

text \<open>
  C10. A required directory name that exists but is not a directory (a regular file named
  \<open>app\<close>, say) counts as missing: the structure checker returns false, and prints and
  returns what it does when nothing has that name.
\<close>

theorem non_directory_counts_as_missing:
  assumes "d \<in> set required_dirs" and "nodes fs d = Some (File c)"
  shows "snd (check_project_structure fs) = False
         \<and> check_project_structure fs = check_project_structure (fs\<lparr>nodes := (nodes fs)(d := None)\<rparr>)"
proof
  have nd: "\<not> os_path_isdir fs d"
    using assms(2) by (simp add: os_path_isdir_def)
  with assms(1) show "snd (check_project_structure fs) = False"
    unfolding check_project_structure_result list_all_iff by blast
  have "os_path_isdir (fs\<lparr>nodes := (nodes fs)(d := None)\<rparr>) = os_path_isdir fs"
    using assms(2) by (auto simp: os_path_isdir_def fun_eq_iff)
  then show "check_project_structure fs = check_project_structure (fs\<lparr>nodes := (nodes fs)(d := None)\<rparr>)"
    by (simp add: check_project_structure_def check_project_structure_loop_eq)
qed

theorem non_directory_counts_as_missing_witness:
  "''app'' \<in> set required_dirs \<and> nodes file_named_app_fs ''app'' = Some (File ''not a directory'')
   \<and> os_path_exists file_named_app_fs ''app''
   \<and> snd (check_project_structure file_named_app_fs) = False
   \<and> check_project_structure file_named_app_fs
       = check_project_structure (file_named_app_fs\<lparr>nodes := (nodes file_named_app_fs)(''app'' := None)\<rparr>)"
proof -
  have a: "''app'' \<in> set required_dirs" by (simp add: required_dirs_def)
  have b: "nodes file_named_app_fs ''app'' = Some (File ''not a directory'')"
    by (simp add: file_named_app_fs_def)
  have c: "os_path_exists file_named_app_fs ''app''"
    by (simp add: os_path_exists_def b)
  from a b c non_directory_counts_as_missing [OF a b] show ?thesis
    by blast
qed

text \<open>Each line a checker prints for an item occurs once in its output.\<close>

lemma present_file_line_once:
  "f \<in> set required_files \<Longrightarrow> os_path_exists fs f \<Longrightarrow>
     count_list (fst (check_vercel_files fs)) (check_mark @ '' '' @ f) = 1"
  unfolding check_vercel_files_console
  by (cases "os_path_exists fs ''vercel.json''"; cases "os_path_exists fs ''vercel_main.py''";
      cases "os_path_exists fs ''requirements-vercel.txt''")
     (auto simp: required_files_def pictographs)

lemma missing_files_line_once:
  "f \<in> set required_files \<Longrightarrow> \<not> os_path_exists fs f \<Longrightarrow>
     f \<in> set (filter (\<lambda>f. \<not> os_path_exists fs f) required_files) \<and>
     count_list (fst (check_vercel_files fs))
       (cross_mark @ '' Missing files: ''
          @ str_join '', '' (filter (\<lambda>f. \<not> os_path_exists fs f) required_files)) = 1"
  unfolding check_vercel_files_console
  by (cases "os_path_exists fs ''vercel.json''"; cases "os_path_exists fs ''vercel_main.py''";
      cases "os_path_exists fs ''requirements-vercel.txt''")
     (auto simp: required_files_def pictographs)

lemma present_dir_line_once:
  "d \<in> set (takeWhile (os_path_isdir fs) required_dirs) \<Longrightarrow>
     count_list (fst (check_project_structure fs)) (check_mark @ '' '' @ d @ ''/ directory'') = 1"
  unfolding check_project_structure_console
  by (cases "os_path_isdir fs ''app''"; cases "os_path_isdir fs ''static''";
      cases "os_path_isdir fs ''templates''")
     (auto simp: required_dirs_def pictographs)

lemma first_missing_dir_line_once:
  "dropWhile (os_path_isdir fs) required_dirs = d # rest \<Longrightarrow>
     count_list (fst (check_project_structure fs)) (cross_mark @ '' '' @ d @ ''/ directory missing'') = 1"
  unfolding check_project_structure_console
  by (cases "os_path_isdir fs ''app''"; cases "os_path_isdir fs ''static''";
      cases "os_path_isdir fs ''templates''")
     (auto simp: required_dirs_def pictographs)

text \<open>
  C8, as the code has it. The file checker reports every required file: one check-mark line
  for each file that exists, in the order of the list, and, when some are missing, one
  cross line that names every missing file. The structure checker prints one check-mark
  line for each required directory that comes before the first missing one, and one cross
  line for the first missing one (one check-mark line per directory when none is missing).
\<close>

theorem checker_console_lines:
  "fst (check_vercel_files fs) =
     ''Checking Vercel deployment files...''
       # map (\<lambda>f. check_mark @ '' '' @ f) (filter (os_path_exists fs) required_files)
       @ [if filter (\<lambda>f. \<not> os_path_exists fs f) required_files = []
          then check_mark @ '' All Vercel files are present!''
          else cross_mark @ '' Missing files: ''
                 @ str_join '', '' (filter (\<lambda>f. \<not> os_path_exists fs f) required_files)]
   \<and> (\<forall>f \<in> set required_files.
         if os_path_exists fs f
         then count_list (fst (check_vercel_files fs)) (check_mark @ '' '' @ f) = 1
         else f \<in> set (filter (\<lambda>f. \<not> os_path_exists fs f) required_files)
              \<and> count_list (fst (check_vercel_files fs))
                   (cross_mark @ '' Missing files: ''
                      @ str_join '', '' (filter (\<lambda>f. \<not> os_path_exists fs f) required_files)) = 1)
   \<and> fst (check_project_structure fs) =
       (nl @ construction @ ''  Checking project structure...'')
         # map (\<lambda>d. check_mark @ '' '' @ d @ ''/ directory'')
             (takeWhile (os_path_isdir fs) required_dirs)
         @ (case dropWhile (os_path_isdir fs) required_dirs of
              [] \<Rightarrow> [check_mark @ '' Project structure is correct!'']
            | d # rest \<Rightarrow> [cross_mark @ '' '' @ d @ ''/ directory missing''])
   \<and> (\<forall>d \<in> set (takeWhile (os_path_isdir fs) required_dirs).
         count_list (fst (check_project_structure fs)) (check_mark @ '' '' @ d @ ''/ directory'') = 1)
   \<and> (\<forall>d rest. dropWhile (os_path_isdir fs) required_dirs = d # rest \<longrightarrow>
         count_list (fst (check_project_structure fs))
           (cross_mark @ '' '' @ d @ ''/ directory missing'') = 1)"
proof (intro conjI ballI allI impI)
  show "fst (check_vercel_files fs) =
     ''Checking Vercel deployment files...''
       # map (\<lambda>f. check_mark @ '' '' @ f) (filter (os_path_exists fs) required_files)
       @ [if filter (\<lambda>f. \<not> os_path_exists fs f) required_files = []
          then check_mark @ '' All Vercel files are present!''
          else cross_mark @ '' Missing files: ''
                 @ str_join '', '' (filter (\<lambda>f. \<not> os_path_exists fs f) required_files)]"
    by (rule check_vercel_files_console)
  show "fst (check_project_structure fs) =
       (nl @ construction @ ''  Checking project structure...'')
         # map (\<lambda>d. check_mark @ '' '' @ d @ ''/ directory'')
             (takeWhile (os_path_isdir fs) required_dirs)
         @ (case dropWhile (os_path_isdir fs) required_dirs of
              [] \<Rightarrow> [check_mark @ '' Project structure is correct!'']
            | d # rest \<Rightarrow> [cross_mark @ '' '' @ d @ ''/ directory missing''])"
    by (rule check_project_structure_console)
next
  fix f assume f: "f \<in> set required_files"
  show "if os_path_exists fs f
         then count_list (fst (check_vercel_files fs)) (check_mark @ '' '' @ f) = 1
         else f \<in> set (filter (\<lambda>f. \<not> os_path_exists fs f) required_files)
              \<and> count_list (fst (check_vercel_files fs))
                   (cross_mark @ '' Missing files: ''
                      @ str_join '', '' (filter (\<lambda>f. \<not> os_path_exists fs f) required_files)) = 1"
    using present_file_line_once [OF f] missing_files_line_once [OF f]
    by (cases "os_path_exists fs f") simp_all
next
  fix d assume "d \<in> set (takeWhile (os_path_isdir fs) required_dirs)"
  then show "count_list (fst (check_project_structure fs)) (check_mark @ '' '' @ d @ ''/ directory'') = 1"
    by (rule present_dir_line_once)
next
  fix d rest assume "dropWhile (os_path_isdir fs) required_dirs = d # rest"
  then show "count_list (fst (check_project_structure fs))
           (cross_mark @ '' '' @ d @ ''/ directory missing'') = 1"
    by (rule first_missing_dir_line_once)
qed

theorem checker_console_lines_witness:
  "fst (check_vercel_files partial_fs) =
     [''Checking Vercel deployment files...'',
      check_mark @ '' vercel_main.py'',
      check_mark @ '' requirements-vercel.txt'',
      cross_mark @ '' Missing files: vercel.json'']
   \<and> fst (check_project_structure partial_fs) =
     [nl @ construction @ ''  Checking project structure...'',
      check_mark @ '' app/ directory'',
      cross_mark @ '' static/ directory missing'']
   \<and> count_list (fst (check_vercel_files partial_fs)) (check_mark @ '' vercel_main.py'') = 1
   \<and> count_list (fst (check_project_structure partial_fs))
        (cross_mark @ '' static/ directory missing'') = 1"
  using checker_console_lines [of partial_fs]
  by (simp add: required_files_def required_dirs_def partial_fs_def ready_fs_def
        os_path_exists_def os_path_isdir_def)

text \<open>
  C8 as stated fails on the structure checker: in an empty directory it prints the cross
  line for \<open>app\<close> and returns, so \<open>static\<close> has neither a presence nor an absence line.
\<close>

theorem structure_checker_silent_counterexample:
  "set required_dirs = {''app'', ''static'', ''templates''}
   \<and> fst (check_project_structure empty_fs) =
       [nl @ construction @ ''  Checking project structure...'',
        cross_mark @ '' app/ directory missing'']
   \<and> count_list (fst (check_project_structure empty_fs)) (check_mark @ '' static/ directory'') = 0
   \<and> count_list (fst (check_project_structure empty_fs))
        (cross_mark @ '' static/ directory missing'') = 0"
  by (auto simp: check_project_structure_def required_dirs_def empty_fs_def
        os_path_exists_def os_path_isdir_def pictographs)

section \<open>The secret generator\<close>

lemma open_w_then_writes:
  "open_w fs p = Returns f0 \<Longrightarrow>
     read_file (f_write (f_write (f_write f0 p a) p b) p c) p = Some (a @ b @ c)"
  by (auto simp: open_w_def f_write_def read_file_def split: if_splits)

lemma open_w_then_write:
  "open_w fs p = Returns f0 \<Longrightarrow> read_file (f_write f0 p a) p = Some a"
  by (auto simp: open_w_def f_write_def read_file_def split: if_splits)

text \<open>The three ways through \<open>generate_secret_key\<close>.\<close>

lemma generate_secret_key_cases:
  "generate_secret_key fs tok =
     (case tok of
        Raises e \<Rightarrow>
          ([nl @ key_sign @ '' Generating secure secret key...'',
            cross_mark @ '' Error generating secret key: '' @ str_exn e], fs, Returns None)
      | Returns k \<Rightarrow>
          (case open_w fs ''vercel_secret_key.txt'' of
             Raises e \<Rightarrow>
               ([nl @ key_sign @ '' Generating secure secret key...'',
                 check_mark @ '' Generated SECRET_KEY: '' @ k,
                 cross_mark @ '' Error generating secret key: '' @ str_exn e], fs, Returns None)
           | Returns f0 \<Rightarrow>
               ([nl @ key_sign @ '' Generating secure secret key...'',
                 check_mark @ '' Generated SECRET_KEY: '' @ k,
                 memo_sign @ '' Secret key saved to '' @ sq @ ''vercel_secret_key.txt'' @ sq,
                 bulb_sign @ '' Copy these environment variables to Vercel dashboard''],
                f_write (f_write (f_write f0 ''vercel_secret_key.txt'' (''SECRET_KEY='' @ k @ nl))
                     ''vercel_secret_key.txt'' (''ENVIRONMENT=production'' @ nl))
                     ''vercel_secret_key.txt'' (''DEBUG=false'' @ nl),
                Returns (Some k))))"
  by (simp add: generate_secret_key_def generate_secret_key_try_def Let_def split: outcome.splits)

lemma lines_from_line:
  "CHR 0x0A \<notin> set t \<Longrightarrow> lines_from cur (t @ CHR 0x0A # rest) = (cur @ t) # lines_from [] rest"
  by (induction t arbitrary: cur) auto

text \<open>
  C7. The secret generator returns the token when generation and the opening of the file
  succeed; when generation raises, or opening the file for writing raises, it returns
  \<open>None\<close> after printing the error; in no case does an exception leave it.
\<close>

theorem generate_secret_key_outcome:
  "(\<forall>e. snd (snd (generate_secret_key fs tok)) \<noteq> Raises e)
   \<and> (\<forall>k f0. tok = Returns k \<and> open_w fs ''vercel_secret_key.txt'' = Returns f0
          \<longrightarrow> snd (snd (generate_secret_key fs tok)) = Returns (Some k))
   \<and> (\<forall>e. tok = Raises e \<or> (\<exists>k. tok = Returns k \<and> open_w fs ''vercel_secret_key.txt'' = Raises e)
          \<longrightarrow> snd (snd (generate_secret_key fs tok)) = Returns None
              \<and> last (fst (generate_secret_key fs tok))
                  = cross_mark @ '' Error generating secret key: '' @ str_exn e)"
  by (auto simp: generate_secret_key_cases split: outcome.splits)

theorem generate_secret_key_outcome_witness:
  "snd (snd (generate_secret_key ready_fs (Returns sample_token))) = Returns (Some sample_token)
   \<and> snd (snd (generate_secret_key ready_fs (Raises (Exception ''no entropy source'')))) = Returns None
   \<and> last (fst (generate_secret_key ready_fs (Raises (Exception ''no entropy source''))))
        = cross_mark @ '' Error generating secret key: no entropy source''
   \<and> snd (snd (generate_secret_key secret_dir_fs (Returns sample_token))) = Returns None
   \<and> last (fst (generate_secret_key secret_dir_fs (Returns sample_token)))
        = cross_mark @ '' Error generating secret key: [Errno 21] Is a directory: ''
            @ sq @ ''vercel_secret_key.txt'' @ sq"
proof -
  have a: "open_w ready_fs ''vercel_secret_key.txt''
             = Returns (ready_fs\<lparr>nodes := (nodes ready_fs)(''vercel_secret_key.txt'' \<mapsto> File [])\<rparr>)"
    by (simp add: open_w_def ready_fs_def)
  have b: "open_w secret_dir_fs ''vercel_secret_key.txt''
             = Raises (IsADirectoryError ''vercel_secret_key.txt'')"
    by (simp add: open_w_def secret_dir_fs_def)
  show ?thesis
    using a b
      generate_secret_key_outcome [of ready_fs "Returns sample_token"]
      generate_secret_key_outcome [of ready_fs "Raises (Exception ''no entropy source'')"]
      generate_secret_key_outcome [of secret_dir_fs "Returns sample_token"]
    by simp
qed

text \<open>
  C4, as the code has it. After a successful run of the secret generator the file
  \<open>vercel_secret_key.txt\<close> holds exactly three lines: \<open>SECRET_KEY=<token>\<close> with the
  generated token, \<open>ENVIRONMENT=production\<close> and \<open>DEBUG=false\<close> (the token of
  \<open>token_urlsafe\<close> has no line feed in it).
\<close>

theorem secret_file_three_lines:
  assumes "snd (snd (generate_secret_key fs tok)) = Returns (Some k)"
  shows "tok = Returns k
         \<and> read_file (fst (snd (generate_secret_key fs tok))) ''vercel_secret_key.txt''
             = Some (''SECRET_KEY='' @ k @ nl @ ''ENVIRONMENT=production'' @ nl @ ''DEBUG=false'' @ nl)
         \<and> (CHR 0x0A \<notin> set k \<longrightarrow>
              file_lines (fst (snd (generate_secret_key fs tok))) ''vercel_secret_key.txt''
                = Some [''SECRET_KEY='' @ k, ''ENVIRONMENT=production'', ''DEBUG=false''])"
proof -
  from assms obtain f0 where tok: "tok = Returns k"
    and op: "open_w fs ''vercel_secret_key.txt'' = Returns f0"
    by (auto simp: generate_secret_key_cases split: outcome.splits)
  have rd: "read_file (fst (snd (generate_secret_key fs tok))) ''vercel_secret_key.txt''
             = Some (''SECRET_KEY='' @ k @ nl @ ''ENVIRONMENT=production'' @ nl @ ''DEBUG=false'' @ nl)"
    using open_w_then_writes [OF op] by (simp add: generate_secret_key_cases tok op)
  have ln: "lines_from [] (''SECRET_KEY='' @ k @ nl @ ''ENVIRONMENT=production'' @ nl @ ''DEBUG=false'' @ nl)
             = [''SECRET_KEY='' @ k, ''ENVIRONMENT=production'', ''DEBUG=false'']"
    if "CHR 0x0A \<notin> set k"
  proof -
    have "CHR 0x0A \<notin> set (''SECRET_KEY='' @ k)" using that by simp
    from lines_from_line [OF this, of "[]" "''ENVIRONMENT=production'' @ nl @ ''DEBUG=false'' @ nl"]
    show ?thesis by (simp add: nl_def)
  qed
  show ?thesis using tok rd ln by (simp add: file_lines_def)
qed

theorem secret_file_three_lines_witness:
  "snd (snd (generate_secret_key stale_checklist_fs (Returns sample_token))) = Returns (Some sample_token)
   \<and> CHR 0x0A \<notin> set sample_token
   \<and> file_lines (fst (snd (generate_secret_key stale_checklist_fs (Returns sample_token))))
        ''vercel_secret_key.txt''
       = Some [''SECRET_KEY='' @ sample_token, ''ENVIRONMENT=production'', ''DEBUG=false'']"
proof -
  have a: "snd (snd (generate_secret_key stale_checklist_fs (Returns sample_token)))
             = Returns (Some sample_token)"
    by (simp add: generate_secret_key_cases open_w_def stale_checklist_fs_def ready_fs_def)
  have b: "CHR 0x0A \<notin> set sample_token"
    by (simp add: sample_token_def)
  from a b secret_file_three_lines [OF a] show ?thesis
    by blast
qed

text \<open>
  C4 as stated fails: the generator writes three lines, not two. In the ready directory,
  with the sample token, the file has the three lines below.
\<close>

theorem secret_file_two_lines_counterexample:
  "snd (snd (generate_secret_key ready_fs (Returns sample_token))) = Returns (Some sample_token)
   \<and> file_lines (fst (snd (generate_secret_key ready_fs (Returns sample_token))))
        ''vercel_secret_key.txt''
       = Some [''SECRET_KEY=Zq3vX8mK1tYb0_Rw5NcE-hU7sJ2aLdG9pF4oTiV6yQk'',
               ''ENVIRONMENT=production'', ''DEBUG=false'']
   \<and> map_option length
        (file_lines (fst (snd (generate_secret_key ready_fs (Returns sample_token))))
           ''vercel_secret_key.txt'') \<noteq> Some 2"
  by (simp add: generate_secret_key_cases open_w_def f_write_def read_file_def file_lines_def
        ready_fs_def sample_token_def nl_def)

section \<open>The checklist writer\<close>

lemma line_sublist_unlines:
  assumes "l \<in> set ls"
  shows "sublist l (concat (map (\<lambda>l. l @ nl) ls))"
proof -
  from assms obtain ys zs where "ls = ys @ l # zs"
    by (auto simp: in_set_conv_decomp)
  then have "concat (map (\<lambda>l. l @ nl) ls)
               = concat (map (\<lambda>l. l @ nl) ys) @ l @ (nl @ concat (map (\<lambda>l. l @ nl) zs))"
    by simp
  then show ?thesis
    by (simp only: sublist_appendI)
qed

lemma create_deployment_checklist_cases:
  "create_deployment_checklist fs =
     (case open_w fs ''VERCEL-CHECKLIST.md'' of
        Raises e \<Rightarrow> ([nl @ clipboard @ '' Creating deployment checklist...''], Raises e)
      | Returns f0 \<Rightarrow>
          ([nl @ clipboard @ '' Creating deployment checklist...'',
            check_mark @ '' Deployment checklist created: '' @ sq @ ''VERCEL-CHECKLIST.md'' @ sq],
           Returns (f_write f0 ''VERCEL-CHECKLIST.md'' checklist_content)))"
  by (simp add: create_deployment_checklist_def Let_def split: outcome.splits)

text \<open>
  C9. After the checklist writer has run, \<open>VERCEL-CHECKLIST.md\<close> is a file whose content
  is the fixed document, whatever was there before, and that content contains the three
  section headers. The writer returns unless the path is a directory or cannot be written
  (it catches nothing, so then the error leaves it).
\<close>

theorem checklist_written:
  "(nodes fs ''VERCEL-CHECKLIST.md'' \<noteq> Some Dir \<and> ''VERCEL-CHECKLIST.md'' \<notin> read_only fs
      \<longrightarrow> (\<exists>fs'. snd (create_deployment_checklist fs) = Returns fs'))
   \<and> (\<forall>fs'. snd (create_deployment_checklist fs) = Returns fs'
         \<longrightarrow> read_file fs' ''VERCEL-CHECKLIST.md'' = Some checklist_content)
   \<and> sublist (''## '' @ check_mark @ '' Pre-Deployment'') checklist_content
   \<and> sublist (''## '' @ construction @ '' Deployment Steps'') checklist_content
   \<and> sublist (''## '' @ test_tube @ '' Post-Deployment Testing'') checklist_content"
proof (intro conjI allI impI)
  assume "nodes fs ''VERCEL-CHECKLIST.md'' \<noteq> Some Dir \<and> ''VERCEL-CHECKLIST.md'' \<notin> read_only fs"
  then show "\<exists>fs'. snd (create_deployment_checklist fs) = Returns fs'"
    by (simp add: create_deployment_checklist_cases open_w_def)
next
  fix fs' assume "snd (create_deployment_checklist fs) = Returns fs'"
  then obtain f0 where op: "open_w fs ''VERCEL-CHECKLIST.md'' = Returns f0"
    and fs': "fs' = f_write f0 ''VERCEL-CHECKLIST.md'' checklist_content"
    by (auto simp: create_deployment_checklist_cases split: outcome.splits)
  from open_w_then_write [OF op] fs'
  show "read_file fs' ''VERCEL-CHECKLIST.md'' = Some checklist_content" by simp
next
  show "sublist (''## '' @ check_mark @ '' Pre-Deployment'') checklist_content"
    unfolding checklist_content_def
    by (rule line_sublist_unlines) (simp add: checklist_lines_def)
  show "sublist (''## '' @ construction @ '' Deployment Steps'') checklist_content"
    unfolding checklist_content_def
    by (rule line_sublist_unlines) (simp add: checklist_lines_def)
  show "sublist (''## '' @ test_tube @ '' Post-Deployment Testing'') checklist_content"
    unfolding checklist_content_def
    by (rule line_sublist_unlines) (simp add: checklist_lines_def)
qed

theorem checklist_written_witness:
  "read_file stale_checklist_fs ''VERCEL-CHECKLIST.md'' = Some ''old notes''
   \<and> (\<exists>fs'. snd (create_deployment_checklist stale_checklist_fs) = Returns fs'
         \<and> read_file fs' ''VERCEL-CHECKLIST.md'' = Some checklist_content)"
proof -
  have a: "nodes stale_checklist_fs ''VERCEL-CHECKLIST.md'' \<noteq> Some Dir
           \<and> ''VERCEL-CHECKLIST.md'' \<notin> read_only stale_checklist_fs"
    by (simp add: stale_checklist_fs_def ready_fs_def)
  have b: "read_file stale_checklist_fs ''VERCEL-CHECKLIST.md'' = Some ''old notes''"
    by (simp add: read_file_def stale_checklist_fs_def)
  from a b checklist_written [of stale_checklist_fs] show ?thesis
    by blast
qed

section \<open>The health endpoint\<close>

text \<open>
  C1. For every outcome of the connectivity check the handler returns a payload, never
  raises, and the payload's \<open>status\<close> is \<open>healthy\<close> exactly when the check returned
  true, \<open>warning\<close> exactly when it returned false, and \<open>error\<close> exactly when it raised;
  in that last case \<open>message\<close> is the exception's text.
\<close>

theorem health_check_status:
  "\<exists>payload. health_check tc = Returns payload
     \<and> (field payload ''status'' = Some (JString ''healthy'')
        \<or> field payload ''status'' = Some (JString ''warning'')
        \<or> field payload ''status'' = Some (JString ''error''))
     \<and> (field payload ''status'' = Some (JString ''healthy'') \<longleftrightarrow> tc = Returns True)
     \<and> (field payload ''status'' = Some (JString ''warning'') \<longleftrightarrow> tc = Returns False)
     \<and> (field payload ''status'' = Some (JString ''error'') \<longleftrightarrow> (\<exists>e. tc = Raises e))
     \<and> (\<forall>e. tc = Raises e \<longrightarrow> field payload ''message'' = Some (JString (str_exn e)))"
  by (cases tc) (auto simp: health_check_def)

theorem health_check_status_witness:
  "(\<exists>p. health_check (Returns True) = Returns p \<and> field p ''status'' = Some (JString ''healthy''))
   \<and> (\<exists>p. health_check (Returns False) = Returns p \<and> field p ''status'' = Some (JString ''warning''))
   \<and> (\<exists>p. health_check (Raises (Exception ''database is locked'')) = Returns p
         \<and> field p ''status'' = Some (JString ''error'')
         \<and> field p ''message'' = Some (JString ''database is locked''))"
  using health_check_status [of "Returns True"] health_check_status [of "Returns False"]
    health_check_status [of "Raises (Exception ''database is locked'')"]
  by (simp (no_asm_use)) blast

section \<open>The startup hook\<close>

text \<open>
  C3, as the code has it. When the collaborators it calls return, whatever truth value they
  return, the startup hook returns normally and only logs each outcome; when the
  connectivity check returns false it logs that the app continues with limited
  functionality and does not call the schema initialisation.
\<close>

theorem startup_event_returns:
  "snd (startup_event (Returns connected) (Returns created)) = Returns ()
   \<and> startup_event (Returns False) init_db =
       ([rocket @ '' Starting Jubair Boot House on Vercel...'',
         laptop @ '' Vercel mode: Using SQLite database'',
         cross_mark @ '' SQLite connection failed - app will continue with limited functionality''],
        Returns ())
   \<and> fst (startup_event (Returns True) (Returns created)) =
       [rocket @ '' Starting Jubair Boot House on Vercel...'',
        laptop @ '' Vercel mode: Using SQLite database'',
        check_mark @ '' SQLite connection established'',
        if created then check_mark @ '' SQLite tables verified/created''
        else warning_sign @ ''  SQLite table initialization had issues'']"
  by (simp add: startup_event_def Let_def)

text \<open>
  C3 as stated fails where a collaborator raises: the hook has no handler, so the exception
  of \<open>test_connection\<close>, or of \<open>init_db\<close> after a successful check, leaves it.
\<close>

theorem startup_event_propagates_counterexample:
  "snd (startup_event (Raises (Exception ''unable to open database file'')) (Returns True))
     = Raises (Exception ''unable to open database file'')
   \<and> snd (startup_event (Returns True) (Raises (Exception ''disk I/O error'')))
     = Raises (Exception ''disk I/O error'')"
  by (simp add: startup_event_def Let_def)

section \<open>The redirect routes\<close>

text \<open>
  C6. For every request, \<open>GET /catalog\<close> is handled by a redirect to \<open>/products/\<close>,
  \<open>GET /admin/dashboard\<close> by a redirect to \<open>/products/admin/dashboard\<close>, and
  \<open>GET /admin/users\<close> by a redirect to \<open>/auth/admin/users\<close>.
\<close>

theorem redirect_routes:
  "dispatch_get ''/catalog'' request = Some (catalog_redirect request)
   \<and> catalog_redirect request = Redirect 307 ''/products/''
   \<and> dispatch_get ''/admin/dashboard'' request = Some (admin_dashboard_redirect request)
   \<and> admin_dashboard_redirect request = Redirect 307 ''/products/admin/dashboard''
   \<and> dispatch_get ''/admin/users'' request = Some (admin_users_redirect request)
   \<and> admin_users_redirect request = Redirect 307 ''/auth/admin/users''"
  by (simp add: dispatch_get_def get_routes_def catalog_redirect_def admin_dashboard_redirect_def
        admin_users_redirect_def RedirectResponse_def)

section \<open>The preparation script\<close>

lemma generate_secret_key_returns:
  "\<exists>r. snd (snd (generate_secret_key fs tok)) = Returns r"
  by (simp add: generate_secret_key_cases split: outcome.splits)

lemma main_files_missing:
  assumes "\<not> snd (check_vercel_files fs)"
  shows "main fs tok =
       ([rocket @ '' Vercel Deployment Preparation for Jubair Boot House'', replicate 60 (CHR ''='')]
          @ fst (check_vercel_files fs)
          @ [nl @ cross_mark @ '' Please create missing Vercel files before deployment''],
        fs, Returns False)"
proof -
  obtain o1 where "check_vercel_files fs = (o1, False)"
    using assms by (cases "check_vercel_files fs") simp
  then show ?thesis
    by (simp add: main_def)
qed

lemma main_structure_wrong:
  assumes "snd (check_vercel_files fs)" and "\<not> snd (check_project_structure fs)"
  shows "main fs tok =
       ([rocket @ '' Vercel Deployment Preparation for Jubair Boot House'', replicate 60 (CHR ''='')]
          @ fst (check_vercel_files fs) @ fst (check_project_structure fs)
          @ [nl @ cross_mark @ '' Please fix project structure before deployment''],
        fs, Returns False)"
proof -
  obtain o1 where o1: "check_vercel_files fs = (o1, True)"
    using assms(1) by (cases "check_vercel_files fs") simp
  obtain o2 where o2: "check_project_structure fs = (o2, False)"
    using assms(2) by (cases "check_project_structure fs") simp
  show ?thesis
    by (simp add: main_def o1 o2)
qed

lemma main_secret_failed:
  assumes "snd (check_vercel_files fs)" and "snd (check_project_structure fs)"
    and "snd (snd (generate_secret_key fs tok)) = Returns r" and "\<not> truthy r"
  shows "main fs tok =
       ([rocket @ '' Vercel Deployment Preparation for Jubair Boot House'', replicate 60 (CHR ''='')]
          @ fst (check_vercel_files fs) @ fst (check_project_structure fs)
          @ fst (generate_secret_key fs tok)
          @ [nl @ cross_mark @ '' Failed to generate secret key''],
        fst (snd (generate_secret_key fs tok)), Returns False)"
proof -
  obtain o1 where o1: "check_vercel_files fs = (o1, True)"
    using assms(1) by (cases "check_vercel_files fs") simp
  obtain o2 where o2: "check_project_structure fs = (o2, True)"
    using assms(2) by (cases "check_project_structure fs") simp
  obtain o3 f3 where o3: "generate_secret_key fs tok = (o3, f3, Returns r)"
    using assms(3) by (cases "generate_secret_key fs tok") simp
  show ?thesis
    using assms(4) by (simp add: main_def o1 o2 o3)
qed

lemma main_after_secret:
  assumes "snd (check_vercel_files fs)" and "snd (check_project_structure fs)"
    and "snd (snd (generate_secret_key fs tok)) = Returns r" and "truthy r"
  shows "snd (snd (main fs tok)) =
       (case snd (create_deployment_checklist (fst (snd (generate_secret_key fs tok)))) of
          Raises e \<Rightarrow> Raises e
        | Returns f4 \<Rightarrow> Returns True)"
proof -
  obtain o1 where o1: "check_vercel_files fs = (o1, True)"
    using assms(1) by (cases "check_vercel_files fs") simp
  obtain o2 where o2: "check_project_structure fs = (o2, True)"
    using assms(2) by (cases "check_project_structure fs") simp
  obtain o3 f3 where o3: "generate_secret_key fs tok = (o3, f3, Returns r)"
    using assms(3) by (cases "generate_secret_key fs tok") simp
  obtain o4 r4 where o4: "create_deployment_checklist f3 = (o4, r4)"
    by (cases "create_deployment_checklist f3") simp
  show ?thesis
    using assms(4) by (cases r4) (simp_all add: main_def o1 o2 o3 o4)
qed

lemma ready_checks:
  "snd (check_vercel_files ready_fs)" "snd (check_project_structure ready_fs)"
  "snd (check_vercel_files checklist_dir_fs)" "snd (check_project_structure checklist_dir_fs)"
  by (simp_all add: check_vercel_files_result check_project_structure_result required_files_def
        required_dirs_def ready_fs_def checklist_dir_fs_def os_path_exists_def os_path_isdir_def)

text \<open>
  C5, as the code has it. The exit code is 0 or 1. It is 0 exactly when the required-files
  check, the project-structure check and the secret generation all succeed and the
  checklist writer returns. When one of the three checks fails the code is 1 and the run
  stops at the first failing step: nothing of a later step is printed and no later file is
  written.
\<close>

theorem exit_code_cases:
  "(script_exit_code fs tok = 0 \<or> script_exit_code fs tok = 1)
   \<and> (script_exit_code fs tok = 0 \<longleftrightarrow>
        snd (check_vercel_files fs) \<and> snd (check_project_structure fs)
        \<and> (\<exists>r. snd (snd (generate_secret_key fs tok)) = Returns r \<and> truthy r)
        \<and> (\<exists>f4. snd (create_deployment_checklist (fst (snd (generate_secret_key fs tok))))
                   = Returns f4))
   \<and> (\<not> snd (check_vercel_files fs) \<longrightarrow>
        main fs tok =
          ([rocket @ '' Vercel Deployment Preparation for Jubair Boot House'', replicate 60 (CHR ''='')]
             @ fst (check_vercel_files fs)
             @ [nl @ cross_mark @ '' Please create missing Vercel files before deployment''],
           fs, Returns False))
   \<and> (snd (check_vercel_files fs) \<and> \<not> snd (check_project_structure fs) \<longrightarrow>
        main fs tok =
          ([rocket @ '' Vercel Deployment Preparation for Jubair Boot House'', replicate 60 (CHR ''='')]
             @ fst (check_vercel_files fs) @ fst (check_project_structure fs)
             @ [nl @ cross_mark @ '' Please fix project structure before deployment''],
           fs, Returns False))
   \<and> (snd (check_vercel_files fs) \<and> snd (check_project_structure fs)
        \<and> \<not> (\<exists>r. snd (snd (generate_secret_key fs tok)) = Returns r \<and> truthy r) \<longrightarrow>
        main fs tok =
          ([rocket @ '' Vercel Deployment Preparation for Jubair Boot House'', replicate 60 (CHR ''='')]
             @ fst (check_vercel_files fs) @ fst (check_project_structure fs)
             @ fst (generate_secret_key fs tok)
             @ [nl @ cross_mark @ '' Failed to generate secret key''],
           fst (snd (generate_secret_key fs tok)), Returns False))"
proof -
  obtain r where r: "snd (snd (generate_secret_key fs tok)) = Returns r"
    using generate_secret_key_returns by blast
  consider (files) "\<not> snd (check_vercel_files fs)"
    | (dirs) "snd (check_vercel_files fs)" "\<not> snd (check_project_structure fs)"
    | (secret) "snd (check_vercel_files fs)" "snd (check_project_structure fs)" "\<not> truthy r"
    | (rest) "snd (check_vercel_files fs)" "snd (check_project_structure fs)" "truthy r"
    by blast
  then show ?thesis
  proof cases
    case files
    then show ?thesis
      by (simp add: script_exit_code_def main_files_missing)
  next
    case dirs
    then show ?thesis
      by (simp add: script_exit_code_def main_structure_wrong)
  next
    case secret
    then show ?thesis
      using r by (simp add: script_exit_code_def main_secret_failed [OF secret(1,2) r])
  next
    case rest
    then show ?thesis
      using r by (auto simp: script_exit_code_def main_after_secret [OF rest(1,2) r]
                       split: outcome.splits)
  qed
qed

theorem exit_code_cases_witness:
  "script_exit_code ready_fs (Returns sample_token) = 0
   \<and> \<not> snd (check_vercel_files empty_fs)
   \<and> script_exit_code empty_fs (Returns sample_token) = 1
   \<and> main empty_fs (Returns sample_token) =
        ([rocket @ '' Vercel Deployment Preparation for Jubair Boot House'', replicate 60 (CHR ''='')]
           @ fst (check_vercel_files empty_fs)
           @ [nl @ cross_mark @ '' Please create missing Vercel files before deployment''],
         empty_fs, Returns False)"
proof -
  have a: "snd (snd (generate_secret_key ready_fs (Returns sample_token))) = Returns (Some sample_token)"
    "truthy (Some sample_token)"
    by (simp_all add: generate_secret_key_cases open_w_def ready_fs_def sample_token_def)
  have b: "\<exists>f4. snd (create_deployment_checklist
                      (fst (snd (generate_secret_key ready_fs (Returns sample_token))))) = Returns f4"
    by (simp add: generate_secret_key_cases create_deployment_checklist_cases open_w_def f_write_def
          ready_fs_def)
  have c: "\<not> snd (check_vercel_files empty_fs)"
    by (simp add: check_vercel_files_result required_files_def empty_fs_def os_path_exists_def)
  from a b c ready_checks(1,2)
    exit_code_cases [of ready_fs "Returns sample_token"]
    exit_code_cases [of empty_fs "Returns sample_token"]
  show ?thesis by blast
qed

text \<open>
  C5 as stated fails: the three checks can all succeed and the exit code be 1. With
  \<open>VERCEL-CHECKLIST.md\<close> a directory the checklist writer raises, nothing catches it, and
  the interpreter ends with status 1.
\<close>

theorem exit_code_checklist_counterexample:
  "snd (check_vercel_files checklist_dir_fs)
   \<and> snd (check_project_structure checklist_dir_fs)
   \<and> snd (snd (generate_secret_key checklist_dir_fs (Returns sample_token)))
        = Returns (Some sample_token)
   \<and> script_exit_code checklist_dir_fs (Returns sample_token) = 1"
proof -
  have a: "snd (snd (generate_secret_key checklist_dir_fs (Returns sample_token)))
             = Returns (Some sample_token)"
    by (simp add: generate_secret_key_cases open_w_def checklist_dir_fs_def ready_fs_def)
  have t: "truthy (Some sample_token)"
    by (simp add: sample_token_def)
  have b: "snd (create_deployment_checklist
                  (fst (snd (generate_secret_key checklist_dir_fs (Returns sample_token)))))
             = Raises (IsADirectoryError ''VERCEL-CHECKLIST.md'')"
    by (simp add: generate_secret_key_cases create_deployment_checklist_cases open_w_def f_write_def
          checklist_dir_fs_def ready_fs_def)
  have "script_exit_code checklist_dir_fs (Returns sample_token) = 1"
    by (simp add: script_exit_code_def main_after_secret [OF ready_checks(3,4) a t] b)
  with a ready_checks(3,4) show ?thesis by simp
qed


end
